theory Spec2Isabelle
  imports Main "HOL-Library.Sublist" "HOL-Library.Word"
begin

section \<open>The patient portal views: booking and messaging\<close>

text \<open>
  The source file holds two React components, \<open>BookAppointment\<close> and \<open>Messages\<close>.
  Each is modelled as a state machine. The state is a record of the component's
  \<open>useState\<close> cells, extended by what the component does to its surroundings: the
  requests it has sent to \<open>@/api/patientService\<close> that have not settled yet, the
  \<open>alert\<close> notices shown and the lines written to the console. An \<open>async\<close> function is
  cut at its \<open>await\<close>: the part before it sends the request, and the continuation
  (the rest of the \<open>try\<close> block, or the \<open>catch\<close> block, followed by \<open>finally\<close>) runs
  when the request settles. Settling is an event, so responses may arrive in any order.
\<close>

subsection \<open>Strings\<close>

text \<open>
  A JavaScript string is a sequence of UTF-16 code units: indexing, \<open>split\<close> and
  \<open>includes\<close> all work on code units. The literals of the source are ASCII, one code
  unit for each character, and \<open>js\<close> writes them.
\<close>

type_synonym code_unit = "16 word"

type_synonym js_string = "code_unit list"

definition js :: "string \<Rightarrow> js_string" where
  "js s = map (\<lambda>c. of_nat (of_char c)) s"

text \<open>
  \<open>s.split(" ")\<close> for a separator of one code unit: the pieces between the separators,
  empty pieces included, so that the empty string gives one empty piece.
\<close>

fun split_on :: "code_unit \<Rightarrow> js_string \<Rightarrow> js_string list" where
  "split_on sep [] = [[]]"
| "split_on sep (c # cs) =
     (if c = sep then [] # split_on sep cs
      else (case split_on sep cs of
              [] \<Rightarrow> [[c]]
            | w # ws \<Rightarrow> (c # w) # ws))"

text \<open>\<open>pieces.join(sep)\<close>: the pieces with the separator between each two of them.\<close>

fun join :: "js_string \<Rightarrow> js_string list \<Rightarrow> js_string" where
  "join sep [] = []"
| "join sep [w] = w"
| "join sep (w # v # ws) = w @ sep @ join sep (v # ws)"

text \<open>
  \<open>doctor.split(" ").map(n => n[0]).join("")\<close>. \<open>n[0]\<close> is the first code unit of the
  piece; on an empty piece it is \<open>undefined\<close>, which \<open>join\<close> writes as the empty string,
  so a piece contributes its first code unit when it has one and nothing otherwise.
\<close>

definition initials :: "js_string \<Rightarrow> js_string" where
  "initials doctor = join [] (map (take 1) (split_on 0x20 doctor))"

text \<open>
  \<open>toLowerCase\<close> applies the case mapping of Unicode, whose tables are part of the
  JavaScript runtime; it is taken as a parameter. On text that is all ASCII every
  runtime agrees with \<open>ascii_lower\<close> on each code unit, and \<open>lowers_ascii\<close> says so of
  a runtime.
\<close>

record unicode =
  toLowerCase :: "js_string \<Rightarrow> js_string"




text \<open>\<open>s.includes(q)\<close>: \<open>q\<close> starts at some position of \<open>s\<close>.\<close>

fun str_includes :: "js_string \<Rightarrow> js_string \<Rightarrow> bool" where
  "str_includes [] q = (q = [])"
| "str_includes (c # cs) q = (prefix q (c # cs) \<or> str_includes cs q)"

subsection \<open>The service and the surroundings\<close>

definition PATIENT_ID :: int where
  "PATIENT_ID = 3"

text \<open>The four operations imported from \<open>@/api/patientService\<close>, with their arguments.\<close>

datatype request =
    GetAvailableAppointments
  | ReserveAppointment int int
  | GetPatientConversations int
  | GetConversationMessages int int

datatype console_entry =
    ConsoleLog js_string js_string
  | ConsoleError js_string
  | ConsoleError2 js_string js_string

record env =
  pending :: "request list"
  alerts :: "js_string list"
  console :: "console_entry list"

fun is_ReserveAppointment :: "request \<Rightarrow> bool" where
  "is_ReserveAppointment (ReserveAppointment p a) = True"
| "is_ReserveAppointment _ = False"

fun is_GetPatientConversations :: "request \<Rightarrow> bool" where
  "is_GetPatientConversations (GetPatientConversations p) = True"
| "is_GetPatientConversations _ = False"

fun is_GetConversationMessages :: "request \<Rightarrow> bool" where
  "is_GetConversationMessages (GetConversationMessages p c) = True"
| "is_GetConversationMessages _ = False"

text \<open>Taking the settled promise out of the list of requests in flight.\<close>

definition remove_nth :: "nat \<Rightarrow> 'a list \<Rightarrow> 'a list" where
  "remove_nth k xs = take k xs @ drop (Suc k) xs"

subsection \<open>BookAppointment\<close>

text \<open>The records returned by \<open>getAvailableAppointments\<close> and the ones built for display.\<close>

record item =
  item_id :: int
  item_doctor :: js_string
  item_specialty :: js_string
  item_branch :: js_string
  item_datetime :: js_string

record appointment =
  appt_id :: int
  appt_doctor :: js_string
  appt_specialty :: js_string
  appt_location :: js_string
  appt_avatar :: js_string
  appt_date :: js_string
  appt_time :: js_string

text \<open>
  The properties of the object that \<open>loadAppointments\<close> builds for a slot, in the order
  of the object literal: the names, and the values as JavaScript values.
\<close>

datatype js_value =
    JsNumber int
  | JsString js_string

definition appointment_entries :: "appointment \<Rightarrow> (string \<times> js_value) list" where
  "appointment_entries a =
     [(''id'', JsNumber (appt_id a)),
      (''doctor'', JsString (appt_doctor a)),
      (''specialty'', JsString (appt_specialty a)),
      (''location'', JsString (appt_location a)),
      (''avatar'', JsString (appt_avatar a)),
      (''date'', JsString (appt_date a)),
      (''time'', JsString (appt_time a))]"

text \<open>
  \<open>Date\<close> and its two formatting methods belong to the JavaScript runtime, which also
  fixes the time zone; they are taken as a parameter. The locale and the option
  objects are the literals of the source, passed as they are written there, an
  option object as the list of its property names and values.
\<close>

record 'd platform =
  newDate :: "js_string \<Rightarrow> 'd"
  toLocaleDateString :: "'d \<Rightarrow> js_string \<Rightarrow> (string \<times> js_string) list \<Rightarrow> js_string"
  toLocaleTimeString :: "'d \<Rightarrow> js_string \<Rightarrow> (string \<times> js_string) list \<Rightarrow> js_string"

definition formatAppointment :: "'d platform \<Rightarrow> item \<Rightarrow> appointment" where
  "formatAppointment P it =
     (let dateObj = newDate P (item_datetime it) in
      \<lparr> appt_id = item_id it,
        appt_doctor = item_doctor it,
        appt_specialty = item_specialty it,
        appt_location = item_branch it,
        appt_avatar = [],
        appt_date = toLocaleDateString P dateObj (js ''en-US'')
          [(''weekday'', js ''short''), (''month'', js ''long''), (''day'', js ''numeric'')],
        appt_time = toLocaleTimeString P dateObj (js ''en-US'')
          [(''hour'', js ''2-digit''), (''minute'', js ''2-digit'')] \<rparr>)"

record BookAppointment = env +
  appointments :: "appointment list"
  loading :: bool
  error :: "js_string option"
  timeOfDay :: "js_string list"

text \<open>The initial values of the \<open>useState\<close> cells, nothing sent yet.\<close>

definition BookAppointment_init :: BookAppointment where
  "BookAppointment_init =
     \<lparr> pending = [], alerts = [], console = [],
       appointments = [], loading = True, error = None, timeOfDay = [js ''afternoon''] \<rparr>"

text \<open>The updater passed to \<open>setTimeOfDay\<close>.\<close>

definition toggle :: "js_string \<Rightarrow> js_string list \<Rightarrow> js_string list" where
  "toggle period prev =
     (if period \<in> set prev then filter (\<lambda>p. p \<noteq> period) prev else prev @ [period])"

definition toggleTimeOfDay :: "js_string \<Rightarrow> BookAppointment \<Rightarrow> BookAppointment" where
  "toggleTimeOfDay period s = s\<lparr>timeOfDay := toggle period (timeOfDay s)\<rparr>"

text \<open>\<open>loadAppointments\<close>: up to the \<open>await\<close>, then on success, then on failure.\<close>

definition loadAppointments :: "BookAppointment \<Rightarrow> BookAppointment" where
  "loadAppointments s = s\<lparr>pending := pending s @ [GetAvailableAppointments]\<rparr>"

definition loadAppointments_then ::
  "'d platform \<Rightarrow> item list \<Rightarrow> BookAppointment \<Rightarrow> BookAppointment" where
  "loadAppointments_then P res s =
     (let formatted = map (formatAppointment P) res in
      s\<lparr>appointments := formatted, loading := False\<rparr>)"

definition loadAppointments_catch :: "js_string \<Rightarrow> BookAppointment \<Rightarrow> BookAppointment" where
  "loadAppointments_catch err s =
     s\<lparr>console := console s @ [ConsoleError err],
       error := Some (js ''Error loading available appointments''),
       loading := False\<rparr>"

text \<open>
  The two notices end in an emoji, written here as its code units: U+2714 with the
  variation selector U+FE0F, and U+274C.
\<close>

definition reserve_ok_notice :: js_string where
  "reserve_ok_notice = js ''Reserva realizada correctamente '' @ [0x2714, 0xFE0F]"

definition reserve_failed_notice :: js_string where
  "reserve_failed_notice = js ''Error al reservar el turno '' @ [0x274C]"

text \<open>\<open>handleReserve\<close>, cut in the same way.\<close>

definition handleReserve :: "int \<Rightarrow> BookAppointment \<Rightarrow> BookAppointment" where
  "handleReserve appointmentId s =
     s\<lparr>pending := pending s @ [ReserveAppointment PATIENT_ID appointmentId]\<rparr>"

definition handleReserve_then :: "js_string \<Rightarrow> BookAppointment \<Rightarrow> BookAppointment" where
  "handleReserve_then res s =
     loadAppointments
       (s\<lparr>console := console s @ [ConsoleLog (js ''Reserva exitosa:'') res],
          alerts := alerts s @ [reserve_ok_notice]\<rparr>)"

definition handleReserve_catch :: "js_string \<Rightarrow> BookAppointment \<Rightarrow> BookAppointment" where
  "handleReserve_catch err s =
     s\<lparr>console := console s @ [ConsoleError err],
       alerts := alerts s @ [reserve_failed_notice]\<rparr>"

text \<open>
  What the component returns: the three branches in the order of the source. A string
  is truthy when it is neither \<open>null\<close> nor empty.
\<close>

datatype BookAppointment_view =
    LoadingView
  | ErrorView js_string
  | ResultsView nat "appointment list"

definition render_BookAppointment :: "BookAppointment \<Rightarrow> BookAppointment_view" where
  "render_BookAppointment s =
     (if loading s then LoadingView
      else (case error s of
              Some e \<Rightarrow> if e \<noteq> [] then ErrorView e
                        else ResultsView (length (appointments s)) (appointments s)
            | None \<Rightarrow> ResultsView (length (appointments s)) (appointments s)))"

text \<open>
  The events of the booking view. A settling event names the position of its request
  among those in flight; \<open>ClickBookNow i\<close> is a click on the button of the \<open>i\<close>-th card.
\<close>

datatype BookAppointment_event =
    AppointmentsFulfilled nat "item list"
  | AppointmentsRejected nat js_string
  | ClickBookNow nat
  | ReserveFulfilled nat js_string
  | ReserveRejected nat js_string

text \<open>
  One event. The result is \<open>None\<close> when the event cannot happen in the state: there is
  no such request in flight, or no such button on the screen.
\<close>

fun BookAppointment_step ::
  "'d platform \<Rightarrow> BookAppointment \<Rightarrow> BookAppointment_event \<Rightarrow> BookAppointment option" where
  "BookAppointment_step P s (AppointmentsFulfilled k res) =
     (if k < length (pending s) \<and> pending s ! k = GetAvailableAppointments
      then Some (loadAppointments_then P res (s\<lparr>pending := remove_nth k (pending s)\<rparr>))
      else None)"
| "BookAppointment_step P s (AppointmentsRejected k err) =
     (if k < length (pending s) \<and> pending s ! k = GetAvailableAppointments
      then Some (loadAppointments_catch err (s\<lparr>pending := remove_nth k (pending s)\<rparr>))
      else None)"
| "BookAppointment_step P s (ClickBookNow i) =
     (case render_BookAppointment s of
        ResultsView n cards \<Rightarrow>
          if i < length cards then Some (handleReserve (appt_id (cards ! i)) s) else None
      | _ \<Rightarrow> None)"
| "BookAppointment_step P s (ReserveFulfilled k res) =
     (if k < length (pending s) \<and> is_ReserveAppointment (pending s ! k)
      then Some (handleReserve_then res (s\<lparr>pending := remove_nth k (pending s)\<rparr>))
      else None)"
| "BookAppointment_step P s (ReserveRejected k err) =
     (if k < length (pending s) \<and> is_ReserveAppointment (pending s ! k)
      then Some (handleReserve_catch err (s\<lparr>pending := remove_nth k (pending s)\<rparr>))
      else None)"

fun BookAppointment_run ::
  "'d platform \<Rightarrow> BookAppointment \<Rightarrow> BookAppointment_event list \<Rightarrow> BookAppointment option" where
  "BookAppointment_run P s [] = Some s"
| "BookAppointment_run P s (e # es) =
     (case BookAppointment_step P s e of
        None \<Rightarrow> None
      | Some s' \<Rightarrow> BookAppointment_run P s' es)"

text \<open>The effect with the empty dependency list runs once, after the first render.\<close>

definition BookAppointment_mount :: BookAppointment where
  "BookAppointment_mount = loadAppointments BookAppointment_init"

subsection \<open>Messages\<close>

text \<open>
  The records returned by \<open>getPatientConversations\<close> and \<open>getConversationMessages\<close>
  and the ones built for display. The \<open>avatar\<close> of a raw conversation may be missing.
\<close>

record raw_conversation =
  raw_id :: int
  raw_doctor :: js_string
  raw_specialty :: js_string
  raw_last_message :: js_string
  raw_time :: js_string
  raw_unread :: int
  raw_avatar :: "js_string option"

record conversation =
  conv_id :: int
  conv_doctor :: js_string
  conv_specialty :: js_string
  conv_lastMessage :: js_string
  conv_time :: js_string
  conv_unread :: int
  conv_avatar :: js_string

record raw_message =
  msg_id :: int
  msg_sender :: js_string
  msg_text :: js_string
  msg_time :: js_string

record message =
  message_id :: int
  message_sender :: js_string
  message_text :: js_string
  message_time :: js_string

definition formatConversation :: "raw_conversation \<Rightarrow> conversation" where
  "formatConversation it =
     \<lparr> conv_id = raw_id it,
       conv_doctor = raw_doctor it,
       conv_specialty = raw_specialty it,
       conv_lastMessage = raw_last_message it,
       conv_time = raw_time it,
       conv_unread = raw_unread it,
       conv_avatar = (case raw_avatar it of
                        Some a \<Rightarrow> a
                      | None \<Rightarrow> initials (raw_doctor it)) \<rparr>"

definition formatMessage :: "raw_message \<Rightarrow> message" where
  "formatMessage msg =
     \<lparr> message_id = msg_id msg,
       message_sender = msg_sender msg,
       message_text = msg_text msg,
       message_time = msg_time msg \<rparr>"

text \<open>
  \<open>selectedConversation\<close> holds a reference to one of the objects of \<open>conversations\<close>,
  and React re-runs the effect that depends on it when the reference changes
  (\<open>Object.is\<close>), not when the fields do. An object is therefore a pair of the position
  at which \<open>data.map\<close> created it and its fields: two objects of the list are the same
  object exactly when the pairs are equal.
\<close>

type_synonym 'a obj = "nat \<times> 'a"

record Messages = env +
  conversations :: "conversation obj list"
  messages :: "message list"
  selectedConversation :: "conversation obj option"
  searchQuery :: js_string
  messageText :: js_string
  loadingConversations :: bool
  loadingMessages :: bool

definition Messages_init :: Messages where
  "Messages_init =
     \<lparr> pending = [], alerts = [], console = [],
       conversations = [], messages = [], selectedConversation = None,
       searchQuery = [], messageText = [],
       loadingConversations = True, loadingMessages = False \<rparr>"

text \<open>
  \<open>loadMessages\<close>, the body of the effect on \<open>selectedConversation\<close>: up to the
  \<open>await\<close>, then on success, then on failure.
\<close>

definition loadMessages :: "Messages \<Rightarrow> Messages" where
  "loadMessages s =
     (case selectedConversation s of
        None \<Rightarrow> s
      | Some c \<Rightarrow>
          s\<lparr>loadingMessages := True,
            pending := pending s @ [GetConversationMessages PATIENT_ID (conv_id (snd c))]\<rparr>)"

definition loadMessages_then :: "raw_message list \<Rightarrow> Messages \<Rightarrow> Messages" where
  "loadMessages_then data s =
     (let formatted = map formatMessage data in
      s\<lparr>messages := formatted, loadingMessages := False\<rparr>)"

definition loadMessages_catch :: "js_string \<Rightarrow> Messages \<Rightarrow> Messages" where
  "loadMessages_catch err s =
     s\<lparr>console := console s @ [ConsoleError2 (js ''Error loading messages:'') err],
       loadingMessages := False\<rparr>"

text \<open>
  \<open>setSelectedConversation\<close> from a click: the same object again changes nothing and
  runs no effect; another object is stored and the effect runs after the render.
\<close>

definition setSelectedConversation :: "conversation obj \<Rightarrow> Messages \<Rightarrow> Messages" where
  "setSelectedConversation c s =
     (if selectedConversation s = Some c then s
      else loadMessages (s\<lparr>selectedConversation := Some c\<rparr>))"

text \<open>
  \<open>loadConversations\<close>. The objects of \<open>formatted\<close> are new, so selecting the first of
  them is always a change and the effect runs.
\<close>

definition loadConversations :: "Messages \<Rightarrow> Messages" where
  "loadConversations s = s\<lparr>pending := pending s @ [GetPatientConversations PATIENT_ID]\<rparr>"

definition loadConversations_then :: "raw_conversation list \<Rightarrow> Messages \<Rightarrow> Messages" where
  "loadConversations_then data s =
     (let formatted = enumerate 0 (map formatConversation data);
          s1 = s\<lparr>conversations := formatted\<rparr>;
          s2 = (if length formatted > 0
                then s1\<lparr>selectedConversation := Some (formatted ! 0)\<rparr>
                else s1);
          s3 = s2\<lparr>loadingConversations := False\<rparr>
      in if length formatted > 0 then loadMessages s3 else s3)"

definition loadConversations_catch :: "js_string \<Rightarrow> Messages \<Rightarrow> Messages" where
  "loadConversations_catch err s =
     s\<lparr>console := console s @ [ConsoleError2 (js ''Error loading conversations:'') err],
       loadingConversations := False\<rparr>"

definition filteredConversations :: "unicode \<Rightarrow> Messages \<Rightarrow> conversation obj list" where
  "filteredConversations U s =
     filter (\<lambda>conv.
         str_includes (toLowerCase U (conv_doctor (snd conv))) (toLowerCase U (searchQuery s)) \<or>
         str_includes (toLowerCase U (conv_specialty (snd conv))) (toLowerCase U (searchQuery s)))
       (conversations s)"

text \<open>The \<open>onKeyDown\<close> handler of the composer.\<close>

record key_event =
  key :: js_string
  shiftKey :: bool

definition onKeyDown :: "key_event \<Rightarrow> Messages \<Rightarrow> Messages" where
  "onKeyDown e s =
     (if key e = js ''Enter'' \<and> \<not> shiftKey e then s\<lparr>messageText := []\<rparr> else s)"

text \<open>
  What the component returns: the search box, the side bar (each conversation with
  its highlight), the header of the chat, the chat itself and the composer.
\<close>

datatype sidebar_view =
    LoadingConversations
  | ConversationItems "(conversation obj \<times> bool) list"

datatype chat_view =
    LoadingMessages
  | MessageBubbles "message list"

record Messages_view =
  view_search :: js_string
  view_sidebar :: sidebar_view
  view_header :: "conversation obj option"
  view_chat :: chat_view
  view_textarea :: js_string

definition render_Messages :: "unicode \<Rightarrow> Messages \<Rightarrow> Messages_view" where
  "render_Messages U s =
     \<lparr> view_search = searchQuery s,
       view_sidebar =
         (if loadingConversations s then LoadingConversations
          else ConversationItems
            (map (\<lambda>conversation.
                (conversation,
                 map_option (\<lambda>c. conv_id (snd c)) (selectedConversation s)
                   = Some (conv_id (snd conversation))))
              (filteredConversations U s))),
       view_header = selectedConversation s,
       view_chat = (if loadingMessages s then LoadingMessages else MessageBubbles (messages s)),
       view_textarea = messageText s \<rparr>"

text \<open>
  The events of the messaging view; \<open>ClickConversation j\<close> is a click on the \<open>j\<close>-th
  conversation of the side bar.
\<close>

datatype Messages_event =
    ConversationsFulfilled nat "raw_conversation list"
  | ConversationsRejected nat js_string
  | MessagesFulfilled nat "raw_message list"
  | MessagesRejected nat js_string
  | ClickConversation nat
  | ChangeSearch js_string
  | ChangeMessageText js_string
  | KeyDown key_event

fun Messages_step :: "unicode \<Rightarrow> Messages \<Rightarrow> Messages_event \<Rightarrow> Messages option" where
  "Messages_step U s (ConversationsFulfilled k data) =
     (if k < length (pending s) \<and> is_GetPatientConversations (pending s ! k)
      then Some (loadConversations_then data (s\<lparr>pending := remove_nth k (pending s)\<rparr>))
      else None)"
| "Messages_step U s (ConversationsRejected k err) =
     (if k < length (pending s) \<and> is_GetPatientConversations (pending s ! k)
      then Some (loadConversations_catch err (s\<lparr>pending := remove_nth k (pending s)\<rparr>))
      else None)"
| "Messages_step U s (MessagesFulfilled k data) =
     (if k < length (pending s) \<and> is_GetConversationMessages (pending s ! k)
      then Some (loadMessages_then data (s\<lparr>pending := remove_nth k (pending s)\<rparr>))
      else None)"
| "Messages_step U s (MessagesRejected k err) =
     (if k < length (pending s) \<and> is_GetConversationMessages (pending s ! k)
      then Some (loadMessages_catch err (s\<lparr>pending := remove_nth k (pending s)\<rparr>))
      else None)"
| "Messages_step U s (ClickConversation j) =
     (case view_sidebar (render_Messages U s) of
        ConversationItems rows \<Rightarrow>
          if j < length rows then Some (setSelectedConversation (fst (rows ! j)) s) else None
      | LoadingConversations \<Rightarrow> None)"
| "Messages_step U s (ChangeSearch q) = Some (s\<lparr>searchQuery := q\<rparr>)"
| "Messages_step U s (ChangeMessageText t) = Some (s\<lparr>messageText := t\<rparr>)"
| "Messages_step U s (KeyDown e) = Some (onKeyDown e s)"

fun Messages_run :: "unicode \<Rightarrow> Messages \<Rightarrow> Messages_event list \<Rightarrow> Messages option" where
  "Messages_run U s [] = Some s"
| "Messages_run U s (e # es) =
     (case Messages_step U s e of
        None \<Rightarrow> None
      | Some s' \<Rightarrow> Messages_run U s' es)"

text \<open>
  Both effects run after the first render: \<open>loadConversations\<close> sends its request, and
  \<open>loadMessages\<close> returns at once because nothing is selected.
\<close>

definition Messages_mount :: Messages where
  "Messages_mount = loadMessages (loadConversations Messages_init)"

subsection \<open>The spec's names and the data of the examples\<close>

text \<open>
  The spec calls the two formatted fields \<open>displayDate\<close> and \<open>displayTime\<close> and says
  that they are functions of the slot's instant and a fixed locale. These are the two
  functions, to be compared with what \<open>loadAppointments\<close> stores.
\<close>

definition displayDate :: "'d platform \<Rightarrow> js_string \<Rightarrow> js_string" where
  "displayDate P datetime =
     toLocaleDateString P (newDate P datetime) (js ''en-US'')
       [(''weekday'', js ''short''), (''month'', js ''long''), (''day'', js ''numeric'')]"

definition displayTime :: "'d platform \<Rightarrow> js_string \<Rightarrow> js_string" where
  "displayTime P datetime =
     toLocaleTimeString P (newDate P datetime) (js ''en-US'')
       [(''hour'', js ''2-digit''), (''minute'', js ''2-digit'')]"

text \<open>
  The six fields that the spec gives the display record, and the names that the
  source uses for them.
\<close>

definition spec_slot_fields :: "string list" where
  "spec_slot_fields =
     [''id'', ''providerName'', ''specialty'', ''location'', ''displayDate'', ''displayTime'']"

definition source_name :: "string \<Rightarrow> string" where
  "source_name f =
     (if f = ''providerName'' then ''doctor''
      else if f = ''displayDate'' then ''date''
      else if f = ''displayTime'' then ''time''
      else f)"

text \<open>
  A runtime for the examples: it knows the instant of the spec's scenario and answers
  \<open>Invalid Date\<close> for every other string, as the formatting methods do for a date that
  could not be parsed.
\<close>

definition example_platform :: "js_string platform" where
  "example_platform =
     \<lparr> newDate = (\<lambda>datetime. datetime),
       toLocaleDateString = (\<lambda>d locale options.
         if d = js ''2024-05-01T14:00:00'' then js ''Wed, May 1'' else js ''Invalid Date''),
       toLocaleTimeString = (\<lambda>d locale options.
         if d = js ''2024-05-01T14:00:00'' then js ''02:00 PM'' else js ''Invalid Date'') \<rparr>"

definition slot_Lee :: item where
  "slot_Lee =
     \<lparr> item_id = 1, item_doctor = js ''Dr. Lee'', item_specialty = js ''Cardiology'',
       item_branch = js ''Central'', item_datetime = js ''2024-05-01T14:00:00'' \<rparr>"

definition slot_Kim :: item where
  "slot_Kim =
     \<lparr> item_id = 2, item_doctor = js ''Dr. Kim'', item_specialty = js ''Dermatology'',
       item_branch = js ''North'', item_datetime = js ''2024-05-01T14:00:00'' \<rparr>"

text \<open>
  A booking view that shows one slot while a reservation of it is still in flight.
\<close>

definition example_booking :: BookAppointment where
  "example_booking =
     BookAppointment_init
       \<lparr> pending := [ReserveAppointment 3 1],
         appointments := [formatAppointment example_platform slot_Lee],
         loading := False \<rparr>"

text \<open>
  A runtime for the examples, right for text whose code units are below U+0100: it
  lowers the letters of ASCII and those of Latin-1 (U+00C0 to U+00DE without the
  multiplication sign U+00D7) and leaves every other code unit as it is.
\<close>

definition latin1_lower :: "code_unit \<Rightarrow> code_unit" where
  "latin1_lower u =
     (if (0x41 \<le> u \<and> u \<le> 0x5A) \<or> (0xC0 \<le> u \<and> u \<le> 0xDE \<and> u \<noteq> 0xD7)
      then u + 0x20 else u)"

definition example_unicode :: unicode where
  "example_unicode = \<lparr> toLowerCase = map latin1_lower \<rparr>"

text \<open>
  Conversations and their messages, and a messaging view that holds the first two.
  The name of the third one is \<open>Elan Nunez\<close> with E acute (U+00C9), N tilde (U+00D1)
  and n tilde (U+00F1).
\<close>

definition conv_Lee :: raw_conversation where
  "conv_Lee =
     \<lparr> raw_id = 1, raw_doctor = js ''Dr. Ana Lee'', raw_specialty = js ''Cardiology'',
       raw_last_message = js ''See you soon'', raw_time = js ''10:00'', raw_unread = 0,
       raw_avatar = None \<rparr>"

definition conv_Kim :: raw_conversation where
  "conv_Kim =
     \<lparr> raw_id = 2, raw_doctor = js ''Dr. Bo Kim'', raw_specialty = js ''Dermatology'',
       raw_last_message = js ''Results'', raw_time = js ''11:00'', raw_unread = 2,
       raw_avatar = Some (js ''BK'') \<rparr>"

definition conv_Elan :: raw_conversation where
  "conv_Elan =
     \<lparr> raw_id = 3, raw_doctor = [0xC9] @ js ''lan '' @ [0xD1, 0x75, 0xF1] @ js ''ez'',
       raw_specialty = js ''Neurology'', raw_last_message = js ''Hola'',
       raw_time = js ''12:00'', raw_unread = 1, raw_avatar = None \<rparr>"

definition msgs_Lee :: "raw_message list" where
  "msgs_Lee =
     [\<lparr> msg_id = 10, msg_sender = js ''patient'', msg_text = js ''Hello Dr. Lee'',
        msg_time = js ''10:00'' \<rparr>]"

definition msgs_Kim :: "raw_message list" where
  "msgs_Kim =
     [\<lparr> msg_id = 20, msg_sender = js ''doctor'', msg_text = js ''Your results are ready'',
        msg_time = js ''11:00'' \<rparr>]"

definition example_chat :: Messages where
  "example_chat =
     Messages_init
       \<lparr> conversations := enumerate 0 (map formatConversation [conv_Lee, conv_Kim]),
         messages := map formatMessage msgs_Lee,
         selectedConversation := Some (0, formatConversation conv_Lee),
         messageText := js ''draft'',
         loadingConversations := False \<rparr>"

text \<open>
  A round of the messaging view in which nothing overlaps: a click on the \<open>j\<close>-th
  conversation of the side bar, then the answer to the one request in flight.
\<close>

fun select_rounds :: "(nat \<times> raw_message list) list \<Rightarrow> Messages_event list" where
  "select_rounds [] = []"
| "select_rounds ((j, data) # rs) =
     ClickConversation j # MessagesFulfilled 0 data # select_rounds rs"

text \<open>
  The clicks of such rounds change the selection each time: every index is one of the
  side bar \<open>F\<close>, and the conversation there is not the one selected just before.
\<close>

fun selection_changes ::
  "conversation obj list \<Rightarrow> conversation obj option \<Rightarrow> nat list \<Rightarrow> bool" where
  "selection_changes F cur [] = True"
| "selection_changes F cur (j # rest) =
     (j < length F \<and> cur \<noteq> Some (F ! j) \<and> selection_changes F (Some (F ! j)) rest)"


section \<open>Properties\<close>

subsection \<open>Auxiliary facts\<close>

lemma js_Nil [simp]: "js [] = []"
  by (simp add: js_def)

lemma js_Cons: "js (c # cs) = of_nat (of_char c) # js cs"
  by (simp add: js_def)

lemma unit_of_char_inject:
  "(of_nat (of_char c) :: code_unit) = of_nat (of_char d) \<longleftrightarrow> c = d"
proof
  assume "(of_nat (of_char c) :: code_unit) = of_nat (of_char d)"
  then have "unat (of_nat (of_char c) :: code_unit) = unat (of_nat (of_char d) :: code_unit)"
    by simp
  moreover have "(of_char x :: nat) < 65536" for x
  proof -
    have "(of_char x :: nat) mod 256 < 256" by (rule mod_less_divisor) simp
    then have "(of_char x :: nat) < 256" by simp
    then show ?thesis by arith
  qed
  ultimately have "(of_char c :: nat) = of_char d"
    by (simp add: unat_of_nat)
  then show "c = d" by simp
qed simp

lemma js_inject [simp]: "js a = js b \<longleftrightarrow> a = b"
proof (induction a arbitrary: b)
  case Nil
  then show ?case by (cases b) (simp_all add: js_def)
next
  case (Cons c cs)
  then show ?case by (cases b) (auto simp: js_Cons unit_of_char_inject)
qed

lemma js_eq_Nil [simp]: "js a = [] \<longleftrightarrow> a = []"
  by (simp add: js_def)

lemma remove_nth_length_append [simp]: "remove_nth (length xs) (xs @ [x]) = xs"
  by (simp add: remove_nth_def)

lemma remove_nth_single [simp]: "remove_nth 0 [x] = []"
  by (simp add: remove_nth_def)

lemma Messages_mount_eq:
  "Messages_mount = Messages_init\<lparr>pending := [GetPatientConversations 3]\<rparr>"
  by (simp add: Messages_mount_def loadConversations_def loadMessages_def Messages_init_def
      PATIENT_ID_def)

lemma str_includes_sublist: "str_includes t q \<longleftrightarrow> sublist q t"
  by (induction t) (simp_all add: sublist_Cons_right)

lemma str_includes_Nil [simp]: "str_includes t []"
  by (simp add: str_includes_sublist)

subsection \<open>The time-of-day filter\<close>

text \<open>
  C8. For every selection and every period, toggling the period twice gives a
  selection with the same members as before; one toggle removes the period when it
  is selected and adds it when it is not.
\<close>

theorem toggleTimeOfDay_involution:
  "set (timeOfDay (toggleTimeOfDay p (toggleTimeOfDay p s))) = set (timeOfDay s) \<and>
   set (timeOfDay (toggleTimeOfDay p s)) =
     (if p \<in> set (timeOfDay s) then set (timeOfDay s) - {p} else insert p (set (timeOfDay s)))"
  by (auto simp: toggleTimeOfDay_def toggle_def)

theorem toggleTimeOfDay_involution_witness:
  "set (timeOfDay (toggleTimeOfDay (js ''morning'') (toggleTimeOfDay (js ''morning'') BookAppointment_init)))
     = {js ''afternoon''} \<and>
   set (timeOfDay (toggleTimeOfDay (js ''morning'') BookAppointment_init)) = {js ''morning'', js ''afternoon''} \<and>
   set (timeOfDay (toggleTimeOfDay (js ''afternoon'') BookAppointment_init)) = {}"
  using toggleTimeOfDay_involution [of "(js ''morning'')" BookAppointment_init]
    toggleTimeOfDay_involution [of "(js ''afternoon'')" BookAppointment_init]
  by (simp add: BookAppointment_init_def)

subsection \<open>Loading the available slots\<close>

lemma AppointmentsFulfilled_step:
  assumes "BookAppointment_step P s (AppointmentsFulfilled k slots) = Some s'"
  shows "s' = s\<lparr>pending := remove_nth k (pending s),
             appointments := map (formatAppointment P) slots, loading := False\<rparr>"
  using assms
  by (simp add: loadAppointments_then_def split: if_splits)

lemma appt_id_formatAppointment [simp]: "appt_id (formatAppointment P it) = item_id it"
  by (simp add: formatAppointment_def Let_def)

text \<open>
  C3, as the spec states it, fails: the display record has seven fields, not six.
  Already for the slot of the spec's scenario the object has the property \<open>avatar\<close>,
  which is none of the spec's six fields under any of the names the source gives
  them, and its value is the empty string.
\<close>

theorem projection_has_avatar_field:
  "map fst (appointment_entries (formatAppointment example_platform slot_Lee))
     = [''id'', ''doctor'', ''specialty'', ''location'', ''avatar'', ''date'', ''time''] \<and>
   length (appointment_entries (formatAppointment example_platform slot_Lee)) \<noteq>
     length spec_slot_fields \<and>
   ''avatar'' \<in> set (map fst (appointment_entries (formatAppointment example_platform slot_Lee))) \<and>
   ''avatar'' \<notin> set (map source_name spec_slot_fields) \<and>
   appt_avatar (formatAppointment example_platform slot_Lee) = []"
  by (simp add: appointment_entries_def spec_slot_fields_def source_name_def
      formatAppointment_def Let_def)

text \<open>
  C3, amended. When the fetch succeeds, the stored list has one display record for
  each raw slot, in the same order, with exactly the seven properties \<open>id\<close>, \<open>doctor\<close>,
  \<open>specialty\<close>, \<open>location\<close>, \<open>avatar\<close>, \<open>date\<close> and \<open>time\<close>: \<open>id\<close>, \<open>doctor\<close>,
  \<open>specialty\<close> and \<open>location\<close> are copied from the slot (\<open>location\<close> from \<open>branch\<close>),
  \<open>avatar\<close> is the empty string for every slot, and \<open>date\<close> and \<open>time\<close> are
  \<open>displayDate\<close> and \<open>displayTime\<close> of the slot's \<open>datetime\<close> alone. On one runtime,
  two slots whose \<open>datetime\<close> is the same instant (the same \<open>Date\<close>) get the same two
  strings, in whatever states, lists and positions they are loaded.
\<close>

theorem loadAppointments_projection:
  assumes "BookAppointment_step P s (AppointmentsFulfilled k res) = Some s'"
  shows "length (appointments s') = length res \<and>
         (\<forall>i<length res. appointments s' ! i =
            \<lparr> appt_id = item_id (res ! i),
              appt_doctor = item_doctor (res ! i),
              appt_specialty = item_specialty (res ! i),
              appt_location = item_branch (res ! i),
              appt_avatar = [],
              appt_date = displayDate P (item_datetime (res ! i)),
              appt_time = displayTime P (item_datetime (res ! i)) \<rparr>) \<and>
         (\<forall>i<length res. map fst (appointment_entries (appointments s' ! i)) =
            [''id'', ''doctor'', ''specialty'', ''location'', ''avatar'', ''date'', ''time'']) \<and>
         (\<forall>t l res2 t'. BookAppointment_step P t (AppointmentsFulfilled l res2) = Some t' \<longrightarrow>
            (\<forall>i<length res. \<forall>j<length res2.
               newDate P (item_datetime (res ! i)) = newDate P (item_datetime (res2 ! j)) \<longrightarrow>
                 appt_date (appointments s' ! i) = appt_date (appointments t' ! j) \<and>
                 appt_time (appointments s' ! i) = appt_time (appointments t' ! j)))"
proof -
  note s' = AppointmentsFulfilled_step [OF assms]
  have rec: "formatAppointment P it =
      \<lparr> appt_id = item_id it, appt_doctor = item_doctor it,
        appt_specialty = item_specialty it, appt_location = item_branch it,
        appt_avatar = [], appt_date = displayDate P (item_datetime it),
        appt_time = displayTime P (item_datetime it) \<rparr>" for it
    by (simp add: formatAppointment_def displayDate_def displayTime_def Let_def)
  have same: "appt_date (formatAppointment P a) = appt_date (formatAppointment P b) \<and>
      appt_time (formatAppointment P a) = appt_time (formatAppointment P b)"
    if "newDate P (item_datetime a) = newDate P (item_datetime b)" for a b
    using that by (simp add: formatAppointment_def Let_def)
  have 1: "length (appointments s') = length res"
    by (simp add: s')
  have 2: "\<forall>i<length res. appointments s' ! i =
            \<lparr> appt_id = item_id (res ! i),
              appt_doctor = item_doctor (res ! i),
              appt_specialty = item_specialty (res ! i),
              appt_location = item_branch (res ! i),
              appt_avatar = [],
              appt_date = displayDate P (item_datetime (res ! i)),
              appt_time = displayTime P (item_datetime (res ! i)) \<rparr>"
    by (simp add: s' rec)
  have 3: "\<forall>i<length res. map fst (appointment_entries (appointments s' ! i)) =
            [''id'', ''doctor'', ''specialty'', ''location'', ''avatar'', ''date'', ''time'']"
    by (simp add: appointment_entries_def)
  have 4: "appt_date (appointments s' ! i) = appt_date (appointments t' ! j) \<and>
           appt_time (appointments s' ! i) = appt_time (appointments t' ! j)"
    if "BookAppointment_step P t (AppointmentsFulfilled l res2) = Some t'"
      and "i < length res" and "j < length res2"
      and "newDate P (item_datetime (res ! i)) = newDate P (item_datetime (res2 ! j))"
    for t l res2 t' i j
    using that(2,3) same [OF that(4)]
    by (simp add: s' AppointmentsFulfilled_step [OF that(1)])
  from 1 2 3 4 show ?thesis by blast
qed

theorem loadAppointments_projection_witness:
  "BookAppointment_step example_platform BookAppointment_mount
       (AppointmentsFulfilled 0 [slot_Lee, slot_Kim])
     = Some (BookAppointment_init\<lparr>appointments :=
         [\<lparr> appt_id = 1, appt_doctor = js ''Dr. Lee'', appt_specialty = js ''Cardiology'',
            appt_location = js ''Central'', appt_avatar = [],
            appt_date = js ''Wed, May 1'', appt_time = js ''02:00 PM'' \<rparr>,
          \<lparr> appt_id = 2, appt_doctor = js ''Dr. Kim'', appt_specialty = js ''Dermatology'',
            appt_location = js ''North'', appt_avatar = [],
            appt_date = js ''Wed, May 1'', appt_time = js ''02:00 PM'' \<rparr>],
         loading := False\<rparr>) \<and>
   length (appointments (BookAppointment_init\<lparr>appointments :=
         [\<lparr> appt_id = 1, appt_doctor = js ''Dr. Lee'', appt_specialty = js ''Cardiology'',
            appt_location = js ''Central'', appt_avatar = [],
            appt_date = js ''Wed, May 1'', appt_time = js ''02:00 PM'' \<rparr>,
          \<lparr> appt_id = 2, appt_doctor = js ''Dr. Kim'', appt_specialty = js ''Dermatology'',
            appt_location = js ''North'', appt_avatar = [],
            appt_date = js ''Wed, May 1'', appt_time = js ''02:00 PM'' \<rparr>],
         loading := False\<rparr>)) = length [slot_Lee, slot_Kim] \<and>
   displayTime example_platform (item_datetime slot_Lee) = js ''02:00 PM''"
proof -
  have a: "BookAppointment_step example_platform BookAppointment_mount
       (AppointmentsFulfilled 0 [slot_Lee, slot_Kim])
     = Some (BookAppointment_init\<lparr>appointments :=
         [\<lparr> appt_id = 1, appt_doctor = js ''Dr. Lee'', appt_specialty = js ''Cardiology'',
            appt_location = js ''Central'', appt_avatar = [],
            appt_date = js ''Wed, May 1'', appt_time = js ''02:00 PM'' \<rparr>,
          \<lparr> appt_id = 2, appt_doctor = js ''Dr. Kim'', appt_specialty = js ''Dermatology'',
            appt_location = js ''North'', appt_avatar = [],
            appt_date = js ''Wed, May 1'', appt_time = js ''02:00 PM'' \<rparr>],
         loading := False\<rparr>)"
    by (simp add: BookAppointment_mount_def BookAppointment_init_def loadAppointments_def
        loadAppointments_then_def remove_nth_def formatAppointment_def example_platform_def
        slot_Lee_def slot_Kim_def)
  have b: "displayTime example_platform (item_datetime slot_Lee) = js ''02:00 PM''"
    by (simp add: example_platform_def slot_Lee_def displayTime_def)
  from loadAppointments_projection [OF a] a b show ?thesis
    by blast
qed

lemma error_view_persists_step:
  assumes "BookAppointment_step P s e = Some s'"
    and "error s = Some (js ''Error loading available appointments'')" and "\<not> loading s"
  shows "error s' = Some (js ''Error loading available appointments'') \<and> \<not> loading s'"
  using assms
  by (cases e)
     (auto simp: loadAppointments_then_def loadAppointments_catch_def handleReserve_def
        handleReserve_then_def handleReserve_catch_def loadAppointments_def
        render_BookAppointment_def Let_def split: if_splits)

lemma error_view_persists_run:
  assumes "BookAppointment_run P s es = Some s'"
    and "error s = Some (js ''Error loading available appointments'')" and "\<not> loading s"
  shows "error s' = Some (js ''Error loading available appointments'') \<and> \<not> loading s'"
  using assms
proof (induction es arbitrary: s)
  case Nil
  then show ?case by simp
next
  case (Cons e es)
  then obtain s1 where s1: "BookAppointment_step P s e = Some s1"
    and r: "BookAppointment_run P s1 es = Some s'"
    by (auto split: option.splits)
  from error_view_persists_step [OF s1 Cons.prems(2) Cons.prems(3)] Cons.IH [OF r]
  show ?case by blast
qed

text \<open>
  C4. When the fetch of the available slots fails, the view is the error view with
  the one message \<open>Error loading available appointments\<close> and no list, whatever list
  the state holds; the failure adds nothing to that list and shows no notice; and
  the view stays the error view through every later event.
\<close>

theorem loadAppointments_failure_fail_closed:
  assumes "BookAppointment_step P s (AppointmentsRejected k err) = Some s'"
  shows "render_BookAppointment s' = ErrorView (js ''Error loading available appointments'') \<and>
         appointments s' = appointments s \<and> alerts s' = alerts s \<and>
         (\<forall>es s''. BookAppointment_run P s' es = Some s'' \<longrightarrow>
            render_BookAppointment s'' = ErrorView (js ''Error loading available appointments''))"
proof -
  have e: "error s' = Some (js ''Error loading available appointments'')" and l: "\<not> loading s'"
    and rest: "appointments s' = appointments s" "alerts s' = alerts s"
    using assms by (auto simp: loadAppointments_catch_def split: if_splits)
  have "render_BookAppointment s'' = ErrorView (js ''Error loading available appointments'')"
    if "BookAppointment_run P s' es = Some s''" for es s''
    using error_view_persists_run [OF that e l] by (simp add: render_BookAppointment_def)
  moreover have "render_BookAppointment s' = ErrorView (js ''Error loading available appointments'')"
    using e l by (simp add: render_BookAppointment_def)
  ultimately show ?thesis using rest by blast
qed

theorem loadAppointments_failure_fail_closed_witness:
  "BookAppointment_step example_platform BookAppointment_mount (AppointmentsRejected 0 (js ''503''))
     = Some (BookAppointment_init\<lparr>console := [ConsoleError (js ''503'')],
         error := Some (js ''Error loading available appointments''), loading := False\<rparr>) \<and>
   render_BookAppointment (BookAppointment_init\<lparr>console := [ConsoleError (js ''503'')],
         error := Some (js ''Error loading available appointments''), loading := False\<rparr>)
     = ErrorView (js ''Error loading available appointments'')"
  using loadAppointments_failure_fail_closed [of example_platform BookAppointment_mount 0 "(js ''503'')"
    "BookAppointment_init\<lparr>console := [ConsoleError (js ''503'')],
         error := Some (js ''Error loading available appointments''), loading := False\<rparr>"]
  by (simp add: BookAppointment_mount_def BookAppointment_init_def loadAppointments_def
      loadAppointments_catch_def remove_nth_def)

subsection \<open>Reserving a slot\<close>

lemma ClickBookNow_step:
  assumes "BookAppointment_step P s (ClickBookNow i) = Some s1"
  shows "i < length (appointments s)"
    and "s1 = s\<lparr>pending := pending s @ [ReserveAppointment 3 (appt_id (appointments s ! i))]\<rparr>"
  using assms
  by (simp_all add: render_BookAppointment_def handleReserve_def PATIENT_ID_def
      split: if_splits option.splits)

lemma ReserveFulfilled_step:
  assumes "BookAppointment_step P s (ReserveFulfilled k res) = Some s2"
  shows "s2 = s\<lparr>console := console s @ [ConsoleLog (js ''Reserva exitosa:'') res],
             alerts := alerts s @ [reserve_ok_notice],
             pending := remove_nth k (pending s) @ [GetAvailableAppointments]\<rparr>"
  using assms
  by (simp add: handleReserve_then_def loadAppointments_def split: if_splits)

lemma ReserveRejected_step:
  assumes "BookAppointment_step P s (ReserveRejected k err) = Some s3"
  shows "s3 = s\<lparr>pending := remove_nth k (pending s),
             console := console s @ [ConsoleError err],
             alerts := alerts s @ [reserve_failed_notice]\<rparr>"
  using assms
  by (simp add: handleReserve_catch_def split: if_splits)

lemma reserve_then_reload:
  assumes "BookAppointment_run P s
        [ClickBookNow i, ReserveFulfilled (length (pending s)) res,
         AppointmentsFulfilled (length (pending s)) slots] = Some s4"
  shows "map appt_id (appointments s4) = map item_id slots \<and>
      pending s4 = pending s \<and>
      alerts s4 = alerts s @ [reserve_ok_notice]"
proof -
  from assms obtain s1 s2 where
    1: "BookAppointment_step P s (ClickBookNow i) = Some s1" and
    2: "BookAppointment_step P s1 (ReserveFulfilled (length (pending s)) res) = Some s2" and
    3: "BookAppointment_step P s2 (AppointmentsFulfilled (length (pending s)) slots) = Some s4"
    by (auto simp del: BookAppointment_step.simps split: option.splits)
  note a = ClickBookNow_step(2) [OF 1]
  have p1: "pending s1 = pending s @ [ReserveAppointment 3 (appt_id (appointments s ! i))]"
    and al1: "alerts s1 = alerts s"
    by (simp_all add: a)
  note b = ReserveFulfilled_step [OF 2]
  have p2: "pending s2 = pending s @ [GetAvailableAppointments]"
    and al2: "alerts s2 = alerts s @ [reserve_ok_notice]"
    by (simp_all add: b p1 al1)
  note c = AppointmentsFulfilled_step [OF 3]
  show ?thesis
    by (simp add: c p2 al2 comp_def)
qed

text \<open>
  C2. A click on the button of the \<open>i\<close>-th card sends one reservation request with the
  pair of the patient id 3 and the id of that card's slot, and changes nothing else.
  When a reservation succeeds, the confirmation notice is shown and
  \<open>loadAppointments\<close> sends a new fetch of the available slots; when that fetch
  succeeds, the list holds the slots it returned, so a booked slot that the service
  no longer returns is gone. When a reservation fails, the failure notice is shown,
  no fetch is sent, and the list and the view are as before.
\<close>

theorem handleReserve_contract:
  "(BookAppointment_step P s (ClickBookNow i) = Some s1 \<longrightarrow>
      i < length (appointments s) \<and>
      s1 = s\<lparr>pending := pending s @ [ReserveAppointment 3 (appt_id (appointments s ! i))]\<rparr>) \<and>
   (BookAppointment_step P s (ReserveFulfilled k res) = Some s2 \<longrightarrow>
      s2 = s\<lparr>console := console s @ [ConsoleLog (js ''Reserva exitosa:'') res],
             alerts := alerts s @ [reserve_ok_notice],
             pending := remove_nth k (pending s) @ [GetAvailableAppointments]\<rparr>) \<and>
   (BookAppointment_step P s (ReserveRejected k err) = Some s3 \<longrightarrow>
      s3 = s\<lparr>pending := remove_nth k (pending s),
             console := console s @ [ConsoleError err],
             alerts := alerts s @ [reserve_failed_notice]\<rparr> \<and>
      appointments s3 = appointments s \<and>
      render_BookAppointment s3 = render_BookAppointment s) \<and>
   (BookAppointment_run P s
        [ClickBookNow i, ReserveFulfilled (length (pending s)) res,
         AppointmentsFulfilled (length (pending s)) slots] = Some s4 \<longrightarrow>
      map appt_id (appointments s4) = map item_id slots \<and>
      pending s4 = pending s \<and>
      alerts s4 = alerts s @ [reserve_ok_notice])"
proof (intro conjI impI)
  assume "BookAppointment_step P s (ClickBookNow i) = Some s1"
  from ClickBookNow_step [OF this]
  show "i < length (appointments s)"
    and "s1 = s\<lparr>pending := pending s @ [ReserveAppointment 3 (appt_id (appointments s ! i))]\<rparr>"
    by blast+
next
  assume "BookAppointment_step P s (ReserveFulfilled k res) = Some s2"
  from ReserveFulfilled_step [OF this]
  show "s2 = s\<lparr>console := console s @ [ConsoleLog (js ''Reserva exitosa:'') res],
             alerts := alerts s @ [reserve_ok_notice],
             pending := remove_nth k (pending s) @ [GetAvailableAppointments]\<rparr>" .
next
  assume a: "BookAppointment_step P s (ReserveRejected k err) = Some s3"
  from ReserveRejected_step [OF a]
  show e: "s3 = s\<lparr>pending := remove_nth k (pending s),
             console := console s @ [ConsoleError err],
             alerts := alerts s @ [reserve_failed_notice]\<rparr>" .
  show "appointments s3 = appointments s" by (simp add: e)
  show "render_BookAppointment s3 = render_BookAppointment s"
    by (simp add: e render_BookAppointment_def split: option.splits)
next
  assume a: "BookAppointment_run P s
        [ClickBookNow i, ReserveFulfilled (length (pending s)) res,
         AppointmentsFulfilled (length (pending s)) slots] = Some s4"
  from reserve_then_reload [OF a]
  show "map appt_id (appointments s4) = map item_id slots"
    and "pending s4 = pending s"
    and "alerts s4 = alerts s @ [reserve_ok_notice]"
    by blast+
qed

theorem handleReserve_contract_witness:
  "BookAppointment_step example_platform example_booking (ClickBookNow 0)
     = Some (example_booking\<lparr>pending := [ReserveAppointment 3 1, ReserveAppointment 3 1]\<rparr>) \<and>
   BookAppointment_step example_platform example_booking (ReserveFulfilled 0 (js ''ok''))
     = Some (example_booking\<lparr>console := [ConsoleLog (js ''Reserva exitosa:'') (js ''ok'')],
               alerts := [reserve_ok_notice], pending := [GetAvailableAppointments]\<rparr>) \<and>
   BookAppointment_step example_platform example_booking (ReserveRejected 0 (js ''409''))
     = Some (example_booking\<lparr>pending := [], console := [ConsoleError (js ''409'')],
               alerts := [reserve_failed_notice]\<rparr>) \<and>
   BookAppointment_run example_platform example_booking
       [ClickBookNow 0, ReserveFulfilled 1 (js ''ok''), AppointmentsFulfilled 1 [slot_Kim]]
     = Some (example_booking\<lparr>console := [ConsoleLog (js ''Reserva exitosa:'') (js ''ok'')],
               alerts := [reserve_ok_notice],
               appointments := [formatAppointment example_platform slot_Kim]\<rparr>) \<and>
   map appt_id (appointments (example_booking\<lparr>console := [ConsoleLog (js ''Reserva exitosa:'') (js ''ok'')],
               alerts := [reserve_ok_notice],
               appointments := [formatAppointment example_platform slot_Kim]\<rparr>)) = [2]"
  using handleReserve_contract [where P = example_platform and s = example_booking and i = 0
      and ?s1.0 = "example_booking\<lparr>pending := [ReserveAppointment 3 1, ReserveAppointment 3 1]\<rparr>"
      and k = 0 and res = "(js ''ok'')"
      and ?s2.0 = "example_booking\<lparr>console := [ConsoleLog (js ''Reserva exitosa:'') (js ''ok'')],
               alerts := [reserve_ok_notice], pending := [GetAvailableAppointments]\<rparr>"
      and err = "(js ''409'')"
      and ?s3.0 = "example_booking\<lparr>pending := [], console := [ConsoleError (js ''409'')],
               alerts := [reserve_failed_notice]\<rparr>"
      and slots = "[slot_Kim]"
      and ?s4.0 = "example_booking\<lparr>console := [ConsoleLog (js ''Reserva exitosa:'') (js ''ok'')],
               alerts := [reserve_ok_notice],
               appointments := [formatAppointment example_platform slot_Kim]\<rparr>"]
  by (simp add: example_booking_def BookAppointment_init_def render_BookAppointment_def
      handleReserve_def handleReserve_then_def handleReserve_catch_def loadAppointments_def
      loadAppointments_then_def remove_nth_def PATIENT_ID_def slot_Lee_def slot_Kim_def)

subsection \<open>Loading the conversations\<close>

lemma ConversationsFulfilled_step:
  assumes "Messages_step U s (ConversationsFulfilled k data) = Some s'"
  shows "s' = loadConversations_then data (s\<lparr>pending := remove_nth k (pending s)\<rparr>)"
  using assms by (simp split: if_splits)

lemma loadConversations_then_empty:
  "loadConversations_then [] s = s\<lparr>conversations := [], loadingConversations := False\<rparr>"
  by (simp add: loadConversations_then_def)

lemma loadConversations_then_nonempty:
  "data \<noteq> [] \<Longrightarrow> loadConversations_then data s =
     s\<lparr>conversations := enumerate 0 (map formatConversation data),
       selectedConversation := Some (0, formatConversation (hd data)),
       loadingConversations := False,
       loadingMessages := True,
       pending := pending s @ [GetConversationMessages 3 (raw_id (hd data))]\<rparr>"
  by (cases data)
    (simp_all add: loadConversations_then_def loadMessages_def formatConversation_def
      PATIENT_ID_def Let_def)

lemma split_on_nonempty [simp]: "split_on sep s \<noteq> []"
  by (induction s) (auto split: list.splits)

lemma join_first_unit: "join sep ((c # w) # ws) = c # join sep (w # ws)"
  by (cases ws) simp_all

lemma join_first_piece: "ws \<noteq> [] \<Longrightarrow> join sep (w # ws) = w @ sep @ join sep ws"
  by (cases ws) simp_all

lemma join_split_on: "join [sep] (split_on sep s) = s"
proof (induction s)
  case Nil
  show ?case by simp
next
  case (Cons c cs)
  show ?case
  proof (cases "c = sep")
    case True
    with Cons show ?thesis by (simp add: join_first_piece)
  next
    case False
    obtain w ws where ws: "split_on sep cs = w # ws"
      by (cases "split_on sep cs") simp_all
    with False Cons show ?thesis by (simp add: join_first_unit)
  qed
qed

lemma split_on_no_sep: "w \<in> set (split_on sep s) \<Longrightarrow> sep \<notin> set w"
  by (induction s arbitrary: w) (auto split: list.splits if_splits)

lemma join_Nil_concat: "join [] ws = concat ws"
  by (induction "[] :: js_string" ws rule: join.induct) simp_all

text \<open>
  C5. When the fetch of the conversations succeeds, the stored list is the projection
  of the raw records in their order, and the avatar of each is the raw avatar when
  there is one and the initials of the doctor's name when it is missing. The
  initials of a name are the first code units of its words, in their order: the
  words are the pieces, empty ones included, that give the name back when they are
  joined with one space between each two, no piece containing a space, and an empty
  piece gives nothing. When the returned list is not empty its first conversation
  becomes the selected one and the fetch of its messages is sent; when it is empty
  the selection stays as it was (nothing, after mounting) and no request is sent.
\<close>

theorem loadConversations_success:
  assumes "Messages_step U s (ConversationsFulfilled k data) = Some s'"
  shows "map snd (conversations s') = map formatConversation data \<and>
         (\<forall>i<length data.
            conv_avatar (snd (conversations s' ! i)) =
              (case raw_avatar (data ! i) of
                 None \<Rightarrow> initials (raw_doctor (data ! i))
               | Some a \<Rightarrow> a)) \<and>
         (\<forall>doctor. \<exists>ws. ws \<noteq> [] \<and> join [0x20] ws = doctor \<and> (\<forall>w\<in>set ws. 0x20 \<notin> set w) \<and>
            initials doctor = concat (map (take 1) ws)) \<and>
         (data \<noteq> [] \<longrightarrow>
            selectedConversation s' = Some (conversations s' ! 0) \<and>
            snd (conversations s' ! 0) = formatConversation (hd data) \<and>
            pending s' = remove_nth k (pending s) @
              [GetConversationMessages 3 (raw_id (hd data))]) \<and>
         (data = [] \<longrightarrow>
            selectedConversation s' = selectedConversation s \<and>
            pending s' = remove_nth k (pending s) \<and>
            loadingMessages s' = loadingMessages s)"
proof -
  have ini: "\<exists>ws. ws \<noteq> [] \<and> join [0x20] ws = doctor \<and> (\<forall>w\<in>set ws. 0x20 \<notin> set w) \<and>
      initials doctor = concat (map (take 1) ws)" for doctor
  proof (intro exI conjI)
    show "split_on 0x20 doctor \<noteq> []" by simp
    show "join [0x20] (split_on 0x20 doctor) = doctor" by (rule join_split_on)
    show "\<forall>w\<in>set (split_on 0x20 doctor). 0x20 \<notin> set w" by (simp add: split_on_no_sep)
    show "initials doctor = concat (map (take 1) (split_on 0x20 doctor))"
      by (simp add: initials_def join_Nil_concat)
  qed
  have av: "conv_avatar (formatConversation it) =
      (case raw_avatar it of None \<Rightarrow> initials (raw_doctor it) | Some a \<Rightarrow> a)" for it
    by (simp add: formatConversation_def split: option.splits)
  show ?thesis
  proof (cases "data = []")
    case True
    with ConversationsFulfilled_step [OF assms] ini show ?thesis
      by (simp add: loadConversations_then_empty)
  next
    case False
    note s' = ConversationsFulfilled_step [OF assms,
        unfolded loadConversations_then_nonempty [OF False]]
    from False have hd: "map formatConversation data ! 0 = formatConversation (hd data)"
      by (cases data) simp_all
    have 1: "map snd (conversations s') = map formatConversation data"
      and 2: "\<forall>i<length data.
            conv_avatar (snd (conversations s' ! i)) =
              (case raw_avatar (data ! i) of
                 None \<Rightarrow> initials (raw_doctor (data ! i))
               | Some a \<Rightarrow> a)"
      and 3: "selectedConversation s' = Some (conversations s' ! 0)"
      and 4: "snd (conversations s' ! 0) = formatConversation (hd data)"
      and 5: "pending s' = remove_nth k (pending s) @
              [GetConversationMessages 3 (raw_id (hd data))]"
      using False by (simp_all add: s' nth_enumerate_eq av hd)
    from False 1 2 3 4 5 ini show ?thesis by blast
  qed
qed

theorem loadConversations_success_witness:
  "Messages_step example_unicode Messages_mount
       (ConversationsFulfilled 0 [conv_Lee, conv_Kim, conv_Elan])
     = Some (Messages_init
         \<lparr>conversations := [(0, formatConversation conv_Lee), (1, formatConversation conv_Kim),
            (2, formatConversation conv_Elan)],
          selectedConversation := Some (0, formatConversation conv_Lee),
          loadingConversations := False, loadingMessages := True,
          pending := [GetConversationMessages 3 1]\<rparr>) \<and>
   map snd (conversations (Messages_init
         \<lparr>conversations := [(0, formatConversation conv_Lee), (1, formatConversation conv_Kim),
            (2, formatConversation conv_Elan)],
          selectedConversation := Some (0, formatConversation conv_Lee),
          loadingConversations := False, loadingMessages := True,
          pending := [GetConversationMessages 3 1]\<rparr>))
     = map formatConversation [conv_Lee, conv_Kim, conv_Elan] \<and>
   conv_avatar (formatConversation conv_Lee) = js ''DAL'' \<and>
   conv_avatar (formatConversation conv_Kim) = js ''BK'' \<and>
   conv_avatar (formatConversation conv_Elan) = [0xC9, 0xD1] \<and>
   initials (js ''Dr.  Lee '') = js ''DL'' \<and>
   Messages_step example_unicode Messages_mount (ConversationsFulfilled 0 [])
     = Some (Messages_init\<lparr>loadingConversations := False\<rparr>)"
proof -
  have a: "Messages_step example_unicode Messages_mount
       (ConversationsFulfilled 0 [conv_Lee, conv_Kim, conv_Elan])
     = Some (Messages_init
         \<lparr>conversations := [(0, formatConversation conv_Lee), (1, formatConversation conv_Kim),
            (2, formatConversation conv_Elan)],
          selectedConversation := Some (0, formatConversation conv_Lee),
          loadingConversations := False, loadingMessages := True,
          pending := [GetConversationMessages 3 1]\<rparr>)"
    by (simp add: Messages_mount_eq Messages_init_def loadConversations_then_nonempty
        conv_Lee_def)
  have b: "Messages_step example_unicode Messages_mount (ConversationsFulfilled 0 [])
     = Some (Messages_init\<lparr>loadingConversations := False\<rparr>)"
    by (simp add: Messages_mount_eq Messages_init_def loadConversations_then_empty)
  have c: "conv_avatar (formatConversation conv_Lee) = js ''DAL''"
    and d: "conv_avatar (formatConversation conv_Kim) = js ''BK''"
    and e: "conv_avatar (formatConversation conv_Elan) = [0xC9, 0xD1]"
    and f: "initials (js ''Dr.  Lee '') = js ''DL''"
    by (simp_all add: formatConversation_def conv_Lee_def conv_Kim_def conv_Elan_def
        initials_def js_def)
  from loadConversations_success [OF a] a b c d e f show ?thesis
    by blast
qed

text \<open>
  C6. When the fetch of the conversations fails, the failure is written to the
  console and nothing else happens besides the end of the loading state: the list of
  conversations is as it was, no notice is shown, and no request is sent. After
  mounting, the list is therefore empty and the view is the one of an empty list of
  conversations, with no error in it: the state differs from the one after a
  successful fetch of an empty list in the console only.
\<close>

theorem loadConversations_failure_silent:
  assumes "Messages_step U s (ConversationsRejected k err) = Some s'"
  shows "s' = s\<lparr>pending := remove_nth k (pending s),
              console := console s @ [ConsoleError2 (js ''Error loading conversations:'') err],
              loadingConversations := False\<rparr> \<and>
         conversations s' = conversations s \<and> alerts s' = alerts s \<and>
         (s = Messages_mount \<longrightarrow>
            conversations s' = [] \<and> pending s' = [] \<and>
            render_Messages U s' =
              \<lparr> view_search = [], view_sidebar = ConversationItems [], view_header = None,
                view_chat = MessageBubbles [], view_textarea = [] \<rparr> \<and>
            Messages_step U s (ConversationsFulfilled k []) =
              Some (s'\<lparr>console := []\<rparr>))"
proof -
  have s': "s' = s\<lparr>pending := remove_nth k (pending s),
              console := console s @ [ConsoleError2 (js ''Error loading conversations:'') err],
              loadingConversations := False\<rparr>"
    and k: "k < length (pending s)"
    using assms by (simp_all add: loadConversations_catch_def split: if_splits)
  have "conversations s' = [] \<and> pending s' = [] \<and>
            render_Messages U s' =
              \<lparr> view_search = [], view_sidebar = ConversationItems [], view_header = None,
                view_chat = MessageBubbles [], view_textarea = [] \<rparr> \<and>
            Messages_step U s (ConversationsFulfilled k []) =
              Some (s'\<lparr>console := []\<rparr>)" if "s = Messages_mount"
  proof -
    from k that have "k = 0" by (simp add: Messages_mount_eq Messages_init_def)
    then show ?thesis
      by (simp add: s' that Messages_mount_eq Messages_init_def render_Messages_def
          filteredConversations_def loadConversations_then_empty)
  qed
  moreover have "conversations s' = conversations s \<and> alerts s' = alerts s"
    by (simp add: s')
  ultimately show ?thesis using s' by blast
qed

theorem loadConversations_failure_silent_witness:
  "Messages_step example_unicode Messages_mount (ConversationsRejected 0 (js ''503''))
     = Some (Messages_init
         \<lparr>console := [ConsoleError2 (js ''Error loading conversations:'') (js ''503'')],
          loadingConversations := False\<rparr>) \<and>
   render_Messages example_unicode (Messages_init
         \<lparr>console := [ConsoleError2 (js ''Error loading conversations:'') (js ''503'')],
          loadingConversations := False\<rparr>) =
     \<lparr> view_search = [], view_sidebar = ConversationItems [], view_header = None,
       view_chat = MessageBubbles [], view_textarea = [] \<rparr>"
proof -
  have a: "Messages_step example_unicode Messages_mount (ConversationsRejected 0 (js ''503''))
     = Some (Messages_init
         \<lparr>console := [ConsoleError2 (js ''Error loading conversations:'') (js ''503'')],
          loadingConversations := False\<rparr>)"
    by (simp add: Messages_mount_eq Messages_init_def loadConversations_catch_def)
  from loadConversations_failure_silent [OF a] a show ?thesis
    by blast
qed

subsection \<open>Searching the conversations\<close>










subsection \<open>The composer\<close>

text \<open>
  C9. For every draft, Enter without Shift in the composer empties the draft and
  changes nothing else: the requests in flight, and so what has been sent to the
  service, and the messages in the state and on the screen are as before.
\<close>

theorem enter_clears_draft_only:
  assumes "key e = js ''Enter''" and "\<not> shiftKey e"
  shows "Messages_step U s (KeyDown e) = Some (s\<lparr>messageText := []\<rparr>) \<and>
         messageText (s\<lparr>messageText := []\<rparr>) = [] \<and>
         pending (s\<lparr>messageText := []\<rparr>) = pending s \<and>
         messages (s\<lparr>messageText := []\<rparr>) = messages s \<and>
         view_chat (render_Messages U (s\<lparr>messageText := []\<rparr>)) = view_chat (render_Messages U s)"
  using assms by (simp add: onKeyDown_def render_Messages_def)

theorem enter_clears_draft_only_witness:
  "key \<lparr>key = js ''Enter'', shiftKey = False\<rparr> = js ''Enter'' \<and>
   \<not> shiftKey \<lparr>key = js ''Enter'', shiftKey = False\<rparr> \<and>
   messageText example_chat = js ''draft'' \<and>
   Messages_step example_unicode example_chat (KeyDown \<lparr>key = js ''Enter'', shiftKey = False\<rparr>)
     = Some (example_chat\<lparr>messageText := []\<rparr>)"
proof -
  have a: "key \<lparr>key = js ''Enter'', shiftKey = False\<rparr> = js ''Enter''"
    and b: "\<not> shiftKey \<lparr>key = js ''Enter'', shiftKey = False\<rparr>"
    and c: "messageText example_chat = js ''draft''"
    by (simp_all add: example_chat_def)
  from enter_clears_draft_only [OF a b, of example_unicode example_chat] a b c show ?thesis
    by blast
qed

subsection \<open>Selecting a conversation and loading its messages\<close>

lemma MessagesRejected_step:
  assumes "Messages_step U s (MessagesRejected k err) = Some s'"
  shows "k < length (pending s)"
    and "s' = s\<lparr>pending := remove_nth k (pending s),
               console := console s @ [ConsoleError2 (js ''Error loading messages:'') err],
               loadingMessages := False\<rparr>"
  using assms
  by (simp_all add: loadMessages_catch_def split: if_splits)

text \<open>
  C10. When the fetch of the messages fails, the messages of the state are as
  before and they are what the chat shows, now that \<open>loadingMessages\<close> is false
  again, under the header of the conversation that is selected.
\<close>

theorem loadMessages_failure_keeps_messages:
  assumes "Messages_step U s (MessagesRejected k err) = Some s'"
  shows "messages s' = messages s \<and> selectedConversation s' = selectedConversation s \<and>
         loadingMessages s' = False \<and>
         view_chat (render_Messages U s') = MessageBubbles (messages s) \<and>
         view_header (render_Messages U s') = selectedConversation s"
  by (simp add: MessagesRejected_step(2) [OF assms] render_Messages_def)

theorem loadMessages_failure_keeps_messages_witness:
  "Messages_step example_unicode example_chat (ClickConversation 1)
     = Some (example_chat
         \<lparr>selectedConversation := Some (1, formatConversation conv_Kim),
          loadingMessages := True, pending := [GetConversationMessages 3 2]\<rparr>) \<and>
   Messages_step example_unicode (example_chat
         \<lparr>selectedConversation := Some (1, formatConversation conv_Kim),
          loadingMessages := True, pending := [GetConversationMessages 3 2]\<rparr>)
       (MessagesRejected 0 (js ''timeout''))
     = Some (example_chat
         \<lparr>selectedConversation := Some (1, formatConversation conv_Kim),
          console := [ConsoleError2 (js ''Error loading messages:'') (js ''timeout'')]\<rparr>) \<and>
   view_chat (render_Messages example_unicode (example_chat
         \<lparr>selectedConversation := Some (1, formatConversation conv_Kim),
          console := [ConsoleError2 (js ''Error loading messages:'') (js ''timeout'')]\<rparr>))
     = MessageBubbles (map formatMessage msgs_Lee) \<and>
   view_header (render_Messages example_unicode (example_chat
         \<lparr>selectedConversation := Some (1, formatConversation conv_Kim),
          console := [ConsoleError2 (js ''Error loading messages:'') (js ''timeout'')]\<rparr>))
     = Some (1, formatConversation conv_Kim)"
proof -
  have a: "Messages_step example_unicode example_chat (ClickConversation 1)
     = Some (example_chat
         \<lparr>selectedConversation := Some (1, formatConversation conv_Kim),
          loadingMessages := True, pending := [GetConversationMessages 3 2]\<rparr>)"
    by (simp add: example_chat_def Messages_init_def render_Messages_def
        filteredConversations_def example_unicode_def setSelectedConversation_def
        loadMessages_def PATIENT_ID_def formatConversation_def conv_Kim_def conv_Lee_def)
  have b: "Messages_step example_unicode (example_chat
         \<lparr>selectedConversation := Some (1, formatConversation conv_Kim),
          loadingMessages := True, pending := [GetConversationMessages 3 2]\<rparr>)
       (MessagesRejected 0 (js ''timeout''))
     = Some (example_chat
         \<lparr>selectedConversation := Some (1, formatConversation conv_Kim),
          console := [ConsoleError2 (js ''Error loading messages:'') (js ''timeout'')]\<rparr>)"
    by (simp add: example_chat_def Messages_init_def loadMessages_catch_def)
  have c: "messages (example_chat
         \<lparr>selectedConversation := Some (1, formatConversation conv_Kim),
          loadingMessages := True, pending := [GetConversationMessages 3 2]\<rparr>)
      = map formatMessage msgs_Lee"
    and d: "selectedConversation (example_chat
         \<lparr>selectedConversation := Some (1, formatConversation conv_Kim),
          loadingMessages := True, pending := [GetConversationMessages 3 2]\<rparr>)
      = Some (1, formatConversation conv_Kim)"
    by (simp_all add: example_chat_def)
  from loadMessages_failure_keeps_messages [OF b] a b show ?thesis
    unfolding c d by blast
qed

lemma ClickConversation_changes:
  assumes "\<not> loadingConversations s" and "j < length (filteredConversations U s)"
    and "selectedConversation s \<noteq> Some (filteredConversations U s ! j)"
  shows "Messages_step U s (ClickConversation j) =
     Some (s\<lparr>selectedConversation := Some (filteredConversations U s ! j),
             loadingMessages := True,
             pending := pending s @
               [GetConversationMessages 3 (conv_id (snd (filteredConversations U s ! j)))]\<rparr>)"
  using assms
  by (simp add: render_Messages_def setSelectedConversation_def loadMessages_def PATIENT_ID_def)

lemma MessagesFulfilled_enabled:
  assumes "k < length (pending s)" and "is_GetConversationMessages (pending s ! k)"
  shows "Messages_step U s (MessagesFulfilled k msgs) =
     Some (s\<lparr>pending := remove_nth k (pending s),
             messages := map formatMessage msgs, loadingMessages := False\<rparr>)"
  using assms by (simp add: loadMessages_then_def)

lemma Messages_run_step:
  assumes "Messages_step U s e = Some s'"
  shows "Messages_run U s (e # es) = Messages_run U s' es"
  using assms by (simp del: Messages_step.simps)

lemma Messages_run_append:
  "Messages_run U s (es @ fs) =
     (case Messages_run U s es of None \<Rightarrow> None | Some s' \<Rightarrow> Messages_run U s' fs)"
  by (induction es arbitrary: s) (simp_all del: Messages_step.simps split: option.splits)

lemma select_rounds_Cons: "select_rounds (r # rs) = select_rounds [r] @ select_rounds rs"
  by (cases r) simp

lemma select_round_run:
  assumes "pending s = []" and "\<not> loadingConversations s"
    and "j < length (filteredConversations U s)"
    and "selectedConversation s \<noteq> Some (filteredConversations U s ! j)"
  shows "Messages_run U s (select_rounds [(j, msgs)]) =
     Some (s\<lparr>selectedConversation := Some (filteredConversations U s ! j),
             pending := [], messages := map formatMessage msgs, loadingMessages := False\<rparr>)"
proof -
  let ?s1 = "s\<lparr>selectedConversation := Some (filteredConversations U s ! j),
             loadingMessages := True,
             pending := pending s @
               [GetConversationMessages 3 (conv_id (snd (filteredConversations U s ! j)))]\<rparr>"
  have 1: "Messages_step U s (ClickConversation j) = Some ?s1"
    by (rule ClickConversation_changes [OF assms(2) assms(3) assms(4)])
  have 2: "Messages_step U ?s1 (MessagesFulfilled 0 msgs) =
     Some (?s1\<lparr>pending := remove_nth 0 (pending ?s1),
             messages := map formatMessage msgs, loadingMessages := False\<rparr>)"
    by (rule MessagesFulfilled_enabled) (simp_all add: assms(1))
  have 3: "?s1\<lparr>pending := remove_nth 0 (pending ?s1),
             messages := map formatMessage msgs, loadingMessages := False\<rparr> =
     s\<lparr>selectedConversation := Some (filteredConversations U s ! j),
       pending := [], messages := map formatMessage msgs, loadingMessages := False\<rparr>"
    by (simp add: assms(1))
  show ?thesis
    by (simp only: select_rounds.simps Messages_run_step [OF 1] Messages_run_step [OF 2]
        Messages_run.simps(1) 3)
qed

lemma select_rounds_run:
  assumes "pending s = []" and "\<not> loadingConversations s" and "rs \<noteq> []"
    and "selection_changes (filteredConversations U s) (selectedConversation s) (map fst rs)"
  shows "Messages_run U s (select_rounds rs) =
     Some (s\<lparr>selectedConversation := Some (filteredConversations U s ! fst (last rs)),
             pending := [], messages := map formatMessage (snd (last rs)),
             loadingMessages := False\<rparr>)"
  using assms
proof (induction rs arbitrary: s)
  case Nil
  then show ?case by simp
next
  case (Cons r rs)
  obtain j msgs where r: "r = (j, msgs)" by (cases r)
  let ?F = "filteredConversations U s"
  let ?s2 = "s\<lparr>selectedConversation := Some (?F ! j),
             pending := [], messages := map formatMessage msgs, loadingMessages := False\<rparr>"
  from Cons.prems(4) have j: "j < length ?F" and ne: "selectedConversation s \<noteq> Some (?F ! j)"
    and rest: "selection_changes ?F (Some (?F ! j)) (map fst rs)"
    by (simp_all add: r)
  have one: "Messages_run U s (select_rounds [(j, msgs)]) = Some ?s2"
    by (rule select_round_run [OF Cons.prems(1) Cons.prems(2) j ne])
  have run: "Messages_run U s (select_rounds (r # rs)) = Messages_run U ?s2 (select_rounds rs)"
    unfolding r
    by (subst select_rounds_Cons) (simp only: Messages_run_append one option.simps)
  show ?case
  proof (cases "rs = []")
    case True
    with run show ?thesis by (simp add: r)
  next
    case False
    have F2: "filteredConversations U ?s2 = ?F"
      by (simp add: filteredConversations_def)
    have "Messages_run U ?s2 (select_rounds rs) =
       Some (?s2\<lparr>selectedConversation := Some (filteredConversations U ?s2 ! fst (last rs)),
             pending := [], messages := map formatMessage (snd (last rs)),
             loadingMessages := False\<rparr>)"
      by (rule Cons.IH) (simp_all add: False Cons.prems(2) F2 rest)
    with run False show ?thesis by (simp add: F2)
  qed
qed

text \<open>
  C1, as the spec states it, fails: the fetches of two selections overlap and
  the answers arrive in the other order. After the conversations are loaded and the
  messages of the first one (Dr. Lee, id 1) are shown, the second one (Dr. Kim, id 2)
  is clicked and then the first one again, so that the requests for 2 and for 1 are
  both in flight. The answer for 1 arrives first and the answer for 2 last: Dr. Lee is
  selected, nothing is in flight any more, and the messages in view are Dr. Kim's.
\<close>

theorem stale_response_overwrites:
  "map_option pending
     (Messages_run example_unicode Messages_mount
       [ConversationsFulfilled 0 [conv_Lee, conv_Kim], MessagesFulfilled 0 msgs_Lee,
        ClickConversation 1, ClickConversation 0])
     = Some [GetConversationMessages 3 2, GetConversationMessages 3 1] \<and>
   map_option selectedConversation
     (Messages_run example_unicode Messages_mount
       [ConversationsFulfilled 0 [conv_Lee, conv_Kim], MessagesFulfilled 0 msgs_Lee,
        ClickConversation 1, ClickConversation 0,
        MessagesFulfilled 1 msgs_Lee, MessagesFulfilled 0 msgs_Kim])
     = Some (Some (0, formatConversation conv_Lee)) \<and>
   map_option messages
     (Messages_run example_unicode Messages_mount
       [ConversationsFulfilled 0 [conv_Lee, conv_Kim], MessagesFulfilled 0 msgs_Lee,
        ClickConversation 1, ClickConversation 0,
        MessagesFulfilled 1 msgs_Lee, MessagesFulfilled 0 msgs_Kim])
     = Some (map formatMessage msgs_Kim) \<and>
   map_option pending
     (Messages_run example_unicode Messages_mount
       [ConversationsFulfilled 0 [conv_Lee, conv_Kim], MessagesFulfilled 0 msgs_Lee,
        ClickConversation 1, ClickConversation 0,
        MessagesFulfilled 1 msgs_Lee, MessagesFulfilled 0 msgs_Kim])
     = Some [] \<and>
   map formatMessage msgs_Kim \<noteq> map formatMessage msgs_Lee"
  by code_simp

text \<open>
  C1, amended. Every change of the selection sends the fetch of the messages for the
  id of the newly selected conversation with the patient id 3, after the requests
  already in flight, and the chat shows that it is loading: this holds for a click
  on a conversation of the side bar that is not the selected one, and for the
  automatic selection of the first conversation when the list has been loaded.
  Every answer to a fetch of messages, whichever request in flight it answers,
  replaces the messages of the state by those of the answer and leaves the
  selection as it is; no request is cancelled. So when the fetches do not overlap
  the messages in view are those of the selected conversation: after the list is
  loaded and the first fetch answered, and from a state with nothing in flight
  after any number of rounds, each a click that changes the selection followed by
  the answer to its fetch, the conversation clicked last is selected, the messages
  in the state and on the screen are exactly those of the last answer, and nothing
  is in flight.
\<close>

theorem messages_follow_selection:
  "(\<not> loadingConversations s \<and> j < length (filteredConversations U s) \<and>
    selectedConversation s \<noteq> Some (filteredConversations U s ! j) \<longrightarrow>
      Messages_step U s (ClickConversation j) =
        Some (s\<lparr>selectedConversation := Some (filteredConversations U s ! j),
                loadingMessages := True,
                pending := pending s @
                  [GetConversationMessages 3 (conv_id (snd (filteredConversations U s ! j)))]\<rparr>) \<and>
      view_chat (render_Messages U
        (s\<lparr>selectedConversation := Some (filteredConversations U s ! j),
           loadingMessages := True,
           pending := pending s @
             [GetConversationMessages 3 (conv_id (snd (filteredConversations U s ! j)))]\<rparr>))
        = LoadingMessages) \<and>
   (data \<noteq> [] \<longrightarrow>
      Messages_step U Messages_mount (ConversationsFulfilled 0 data) =
        Some (Messages_init
          \<lparr>conversations := enumerate 0 (map formatConversation data),
           selectedConversation := Some (0, formatConversation (hd data)),
           loadingConversations := False, loadingMessages := True,
           pending := [GetConversationMessages 3 (raw_id (hd data))]\<rparr>) \<and>
      Messages_run U Messages_mount [ConversationsFulfilled 0 data, MessagesFulfilled 0 msgs] =
        Some (Messages_init
          \<lparr>conversations := enumerate 0 (map formatConversation data),
           selectedConversation := Some (0, formatConversation (hd data)),
           loadingConversations := False,
           messages := map formatMessage msgs\<rparr>)) \<and>
   (k < length (pending s) \<and> is_GetConversationMessages (pending s ! k) \<longrightarrow>
      Messages_step U s (MessagesFulfilled k msgs) =
        Some (s\<lparr>pending := remove_nth k (pending s),
                messages := map formatMessage msgs, loadingMessages := False\<rparr>)) \<and>
   (pending s = [] \<and> \<not> loadingConversations s \<and> rs \<noteq> [] \<and>
    selection_changes (filteredConversations U s) (selectedConversation s) (map fst rs) \<longrightarrow>
      Messages_run U s (select_rounds rs) =
        Some (s\<lparr>selectedConversation := Some (filteredConversations U s ! fst (last rs)),
                pending := [], messages := map formatMessage (snd (last rs)),
                loadingMessages := False\<rparr>) \<and>
      view_header (render_Messages U
        (s\<lparr>selectedConversation := Some (filteredConversations U s ! fst (last rs)),
           pending := [], messages := map formatMessage (snd (last rs)),
           loadingMessages := False\<rparr>))
        = Some (filteredConversations U s ! fst (last rs)) \<and>
      view_chat (render_Messages U
        (s\<lparr>selectedConversation := Some (filteredConversations U s ! fst (last rs)),
           pending := [], messages := map formatMessage (snd (last rs)),
           loadingMessages := False\<rparr>))
        = MessageBubbles (map formatMessage (snd (last rs))))"
proof (intro conjI impI)
  assume a: "\<not> loadingConversations s \<and> j < length (filteredConversations U s) \<and>
    selectedConversation s \<noteq> Some (filteredConversations U s ! j)"
  then show "Messages_step U s (ClickConversation j) =
        Some (s\<lparr>selectedConversation := Some (filteredConversations U s ! j),
                loadingMessages := True,
                pending := pending s @
                  [GetConversationMessages 3 (conv_id (snd (filteredConversations U s ! j)))]\<rparr>)"
    by (intro ClickConversation_changes) simp_all
  show "view_chat (render_Messages U
        (s\<lparr>selectedConversation := Some (filteredConversations U s ! j),
           loadingMessages := True,
           pending := pending s @
             [GetConversationMessages 3 (conv_id (snd (filteredConversations U s ! j)))]\<rparr>))
        = LoadingMessages"
    by (simp add: render_Messages_def)
next
  assume d: "data \<noteq> []"
  let ?s1 = "Messages_init
          \<lparr>conversations := enumerate 0 (map formatConversation data),
           selectedConversation := Some (0, formatConversation (hd data)),
           loadingConversations := False, loadingMessages := True,
           pending := [GetConversationMessages 3 (raw_id (hd data))]\<rparr>"
  show 1: "Messages_step U Messages_mount (ConversationsFulfilled 0 data) = Some ?s1"
    using d by (simp add: Messages_mount_eq Messages_init_def loadConversations_then_nonempty)
  have 2: "Messages_step U ?s1 (MessagesFulfilled 0 msgs) =
     Some (?s1\<lparr>pending := remove_nth 0 (pending ?s1),
             messages := map formatMessage msgs, loadingMessages := False\<rparr>)"
    by (rule MessagesFulfilled_enabled) simp_all
  have 3: "?s1\<lparr>pending := remove_nth 0 (pending ?s1),
             messages := map formatMessage msgs, loadingMessages := False\<rparr> =
     Messages_init
          \<lparr>conversations := enumerate 0 (map formatConversation data),
           selectedConversation := Some (0, formatConversation (hd data)),
           loadingConversations := False,
           messages := map formatMessage msgs\<rparr>"
    by (simp add: Messages_init_def)
  show "Messages_run U Messages_mount [ConversationsFulfilled 0 data, MessagesFulfilled 0 msgs] =
        Some (Messages_init
          \<lparr>conversations := enumerate 0 (map formatConversation data),
           selectedConversation := Some (0, formatConversation (hd data)),
           loadingConversations := False,
           messages := map formatMessage msgs\<rparr>)"
    by (simp only: Messages_run_step [OF 1] Messages_run_step [OF 2] Messages_run.simps(1) 3)
next
  assume "k < length (pending s) \<and> is_GetConversationMessages (pending s ! k)"
  then show "Messages_step U s (MessagesFulfilled k msgs) =
        Some (s\<lparr>pending := remove_nth k (pending s),
                messages := map formatMessage msgs, loadingMessages := False\<rparr>)"
    by (intro MessagesFulfilled_enabled) simp_all
next
  assume "pending s = [] \<and> \<not> loadingConversations s \<and> rs \<noteq> [] \<and>
    selection_changes (filteredConversations U s) (selectedConversation s) (map fst rs)"
  then show "Messages_run U s (select_rounds rs) =
        Some (s\<lparr>selectedConversation := Some (filteredConversations U s ! fst (last rs)),
                pending := [], messages := map formatMessage (snd (last rs)),
                loadingMessages := False\<rparr>)"
    by (intro select_rounds_run) simp_all
  show "view_header (render_Messages U
        (s\<lparr>selectedConversation := Some (filteredConversations U s ! fst (last rs)),
           pending := [], messages := map formatMessage (snd (last rs)),
           loadingMessages := False\<rparr>))
        = Some (filteredConversations U s ! fst (last rs))"
    by (simp add: render_Messages_def)
  show "view_chat (render_Messages U
        (s\<lparr>selectedConversation := Some (filteredConversations U s ! fst (last rs)),
           pending := [], messages := map formatMessage (snd (last rs)),
           loadingMessages := False\<rparr>))
        = MessageBubbles (map formatMessage (snd (last rs)))"
    by (simp add: render_Messages_def)
qed

theorem messages_follow_selection_witness:
  "filteredConversations example_unicode example_chat
     = [(0, formatConversation conv_Lee), (1, formatConversation conv_Kim)] \<and>
   selectedConversation example_chat = Some (0, formatConversation conv_Lee) \<and>
   conv_id (formatConversation conv_Kim) = 2 \<and>
   Messages_step example_unicode example_chat (ClickConversation 1) =
     Some (example_chat
       \<lparr>selectedConversation := Some (filteredConversations example_unicode example_chat ! 1),
        loadingMessages := True,
        pending := pending example_chat @
          [GetConversationMessages 3
            (conv_id (snd (filteredConversations example_unicode example_chat ! 1)))]\<rparr>) \<and>
   Messages_run example_unicode Messages_mount
       [ConversationsFulfilled 0 [conv_Lee, conv_Kim], MessagesFulfilled 0 msgs_Lee] =
     Some (Messages_init
       \<lparr>conversations := enumerate 0 (map formatConversation [conv_Lee, conv_Kim]),
        selectedConversation := Some (0, formatConversation (hd [conv_Lee, conv_Kim])),
        loadingConversations := False,
        messages := map formatMessage msgs_Lee\<rparr>) \<and>
   Messages_run example_unicode example_chat (select_rounds [(1::nat, msgs_Kim), (0, msgs_Lee)]) =
     Some (example_chat
       \<lparr>selectedConversation := Some (filteredConversations example_unicode example_chat !
          fst (last [(1::nat, msgs_Kim), (0, msgs_Lee)])),
        pending := [],
        messages := map formatMessage (snd (last [(1::nat, msgs_Kim), (0, msgs_Lee)])),
        loadingMessages := False\<rparr>) \<and>
   Messages_step example_unicode
       (example_chat\<lparr>pending := [GetConversationMessages 3 2, GetConversationMessages 3 1]\<rparr>)
       (MessagesFulfilled 0 msgs_Kim) =
     Some (example_chat
       \<lparr>pending := [GetConversationMessages 3 2, GetConversationMessages 3 1],
        pending := remove_nth 0
          (pending (example_chat
            \<lparr>pending := [GetConversationMessages 3 2, GetConversationMessages 3 1]\<rparr>)),
        messages := map formatMessage msgs_Kim, loadingMessages := False\<rparr>)"
proof -
  have F: "filteredConversations example_unicode example_chat
     = [(0, formatConversation conv_Lee), (1, formatConversation conv_Kim)]"
    by (simp add: example_chat_def Messages_init_def filteredConversations_def
        example_unicode_def)
  have sel: "selectedConversation example_chat = Some (0, formatConversation conv_Lee)"
    and idle: "pending example_chat = []"
    and loaded: "\<not> loadingConversations example_chat"
    by (simp_all add: example_chat_def Messages_init_def)
  have kim: "conv_id (formatConversation conv_Kim) = 2"
    by (simp add: formatConversation_def conv_Kim_def)
  have click: "1 < length (filteredConversations example_unicode example_chat)"
    "selectedConversation example_chat \<noteq>
       Some (filteredConversations example_unicode example_chat ! 1)"
    by (simp_all add: F sel)
  have rounds: "[(1::nat, msgs_Kim), (0, msgs_Lee)] \<noteq> []"
    "selection_changes (filteredConversations example_unicode example_chat)
       (selectedConversation example_chat) (map fst [(1::nat, msgs_Kim), (0, msgs_Lee)])"
    by (simp_all add: F sel)
  have data: "[conv_Lee, conv_Kim] \<noteq> []"
    by simp
  have late: "0 < length (pending (example_chat
        \<lparr>pending := [GetConversationMessages 3 2, GetConversationMessages 3 1]\<rparr>))"
    "is_GetConversationMessages (pending (example_chat
        \<lparr>pending := [GetConversationMessages 3 2, GetConversationMessages 3 1]\<rparr>) ! 0)"
    by simp_all
  note t1 = messages_follow_selection [where U = example_unicode and s = example_chat
      and j = 1 and data = "[conv_Lee, conv_Kim]" and msgs = msgs_Lee and k = 0
      and rs = "[(1::nat, msgs_Kim), (0, msgs_Lee)]"]
  note t2 = messages_follow_selection [where U = example_unicode
      and s = "example_chat\<lparr>pending := [GetConversationMessages 3 2, GetConversationMessages 3 1]\<rparr>"
      and j = 1 and data = "[conv_Lee, conv_Kim]" and msgs = msgs_Kim and k = 0
      and rs = "[(1::nat, msgs_Kim), (0, msgs_Lee)]"]
  have a: "Messages_step example_unicode example_chat (ClickConversation 1) =
     Some (example_chat
       \<lparr>selectedConversation := Some (filteredConversations example_unicode example_chat ! 1),
        loadingMessages := True,
        pending := pending example_chat @
          [GetConversationMessages 3
            (conv_id (snd (filteredConversations example_unicode example_chat ! 1)))]\<rparr>)"
    by (rule t1 [THEN conjunct1, THEN mp, OF conjI [OF loaded conjI [OF click]], THEN conjunct1])
  have b: "Messages_run example_unicode Messages_mount
       [ConversationsFulfilled 0 [conv_Lee, conv_Kim], MessagesFulfilled 0 msgs_Lee] =
     Some (Messages_init
       \<lparr>conversations := enumerate 0 (map formatConversation [conv_Lee, conv_Kim]),
        selectedConversation := Some (0, formatConversation (hd [conv_Lee, conv_Kim])),
        loadingConversations := False,
        messages := map formatMessage msgs_Lee\<rparr>)"
    by (rule t1 [THEN conjunct2, THEN conjunct1, THEN mp, OF data, THEN conjunct2])
  have c:
    "Messages_run example_unicode example_chat (select_rounds [(1::nat, msgs_Kim), (0, msgs_Lee)]) =
     Some (example_chat
       \<lparr>selectedConversation := Some (filteredConversations example_unicode example_chat !
          fst (last [(1::nat, msgs_Kim), (0, msgs_Lee)])),
        pending := [],
        messages := map formatMessage (snd (last [(1::nat, msgs_Kim), (0, msgs_Lee)])),
        loadingMessages := False\<rparr>)"
    by (rule t1 [THEN conjunct2, THEN conjunct2, THEN conjunct2, THEN mp,
        OF conjI [OF idle conjI [OF loaded conjI [OF rounds]]], THEN conjunct1])
  have d: "Messages_step example_unicode
       (example_chat\<lparr>pending := [GetConversationMessages 3 2, GetConversationMessages 3 1]\<rparr>)
       (MessagesFulfilled 0 msgs_Kim) =
     Some (example_chat
       \<lparr>pending := [GetConversationMessages 3 2, GetConversationMessages 3 1],
        pending := remove_nth 0
          (pending (example_chat
            \<lparr>pending := [GetConversationMessages 3 2, GetConversationMessages 3 1]\<rparr>)),
        messages := map formatMessage msgs_Kim, loadingMessages := False\<rparr>)"
    by (rule t2 [THEN conjunct2, THEN conjunct2, THEN conjunct1, THEN mp, OF conjI [OF late]])
  from F sel kim a b c d show ?thesis
    by (intro conjI)
qed

end
